theory Spec2Isabelle
  imports Complex_Main "HOL-Library.Multiset"
begin

section \<open>JavaScript values as the event proxy sees them\<close>

text \<open>
  The event proxy (the API handler that follows the dashboard page in
  \<^verbatim>\<open>src/pages/dashboard.tsx\<close>) reads an upstream JSON payload. TypeScript types are
  erased at run time, so a field of an upstream event may hold any JSON value; the
  model keeps them as values of \<open>jsval\<close>. \<open>JUndefined\<close> is what reading a missing
  property gives. A number is the value \<^verbatim>\<open>JSON.parse\<close> produced (a finite double, hence
  a rational); only whether it is zero matters below.
\<close>

datatype jsval =
    JUndefined
  | JNull
  | JBool bool
  | JNum rat
  | JStr string
  | JArr "jsval list"
  | JObj "(string \<times> jsval) list"

text \<open>JavaScript truthiness, as \<^verbatim>\<open>a || b\<close> tests it.\<close>

fun truthy :: "jsval \<Rightarrow> bool" where
  "truthy JUndefined = False"
| "truthy JNull = False"
| "truthy (JBool b) = b"
| "truthy (JNum r) = (r \<noteq> 0)"
| "truthy (JStr s) = (s \<noteq> [])"
| "truthy (JArr xs) = True"
| "truthy (JObj kvs) = True"

definition jor :: "jsval \<Rightarrow> jsval \<Rightarrow> jsval" where
  "jor a b = (if truthy a then a else b)"

definition nullish :: "jsval \<Rightarrow> bool" where
  "nullish v = (v = JUndefined \<or> v = JNull)"

text \<open>
  \<^verbatim>\<open>v.k\<close> for a value that is not \<^verbatim>\<open>null\<close> or \<^verbatim>\<open>undefined\<close> (on those the read throws a
  TypeError, which the callers below test for first) and for the property names the
  proxy reads, none of which is inherited from a prototype: an object gives the
  member stored last under that key, every other value gives \<^verbatim>\<open>undefined\<close>.
\<close>

fun getprop :: "jsval \<Rightarrow> string \<Rightarrow> jsval" where
  "getprop (JObj kvs) k = (case map_of (rev kvs) k of Some v \<Rightarrow> v | None \<Rightarrow> JUndefined)"
| "getprop v k = JUndefined"

text \<open>The decimal digits of an array index, for the template \<^verbatim>\<open>`sre_${index}`\<close>.\<close>

definition digit_char :: "nat \<Rightarrow> char" where
  "digit_char d = char_of (48 + d)"

fun decimal :: "nat \<Rightarrow> string" where
  "decimal n = (if n < 10 then [digit_char n] else decimal (n div 10) @ [digit_char (n mod 10)])"

declare decimal.simps [simp del]

section \<open>SREAPISource.fetchEvents\<close>

text \<open>The interface \<^verbatim>\<open>EventData\<close>; each field holds what the mapping stored in it.\<close>

record EventData =
  event_id :: jsval
  slack_channel_id :: jsval
  subject :: jsval
  event_source :: jsval
  current_status :: jsval
  create_ts :: jsval
  priority :: jsval
  monitor_name :: jsval
  original_title :: jsval

text \<open>
  What \<^verbatim>\<open>await fetch(...)\<close> and \<^verbatim>\<open>await response.json()\<close> can do: the fetch rejects, or it
  gives a response with its \<^verbatim>\<open>ok\<close> flag and status, whose body either parses to a JSON
  value or makes \<^verbatim>\<open>response.json()\<close> reject (\<open>None\<close>).
\<close>

datatype fetch_outcome =
    FetchRejects
  | FetchResponse bool int "jsval option"

text \<open>
  The arrow function given to \<^verbatim>\<open>events.map\<close>. \<open>clock i\<close> is what
  \<^verbatim>\<open>new Date().toISOString()\<close> returns while element \<open>i\<close> is mapped. \<open>None\<close> is the
  TypeError of reading a property of \<^verbatim>\<open>null\<close>.
\<close>

definition mapEvent :: "(nat \<Rightarrow> string) \<Rightarrow> nat \<Rightarrow> jsval \<Rightarrow> EventData option" where
  "mapEvent clock index event =
     (if nullish event then None
      else Some \<lparr>
        event_id = jor (getprop event ''event_id'') (JStr (''sre_'' @ decimal index)),
        slack_channel_id = jor (getprop event ''slack_channel_id'') (JStr ''''),
        subject = jor (getprop event ''subject'') (jor (getprop event ''summary'') (JStr ''SRE Event'')),
        event_source = jor (getprop event ''event_source'') (JStr ''sre_api''),
        current_status =
          jor (getprop event ''current_status'') (jor (getprop event ''status'') (JStr ''Open'')),
        create_ts =
          jor (getprop event ''create_ts'') (jor (getprop event ''timestamp'') (JStr (clock index))),
        priority = jor (getprop event ''priority'') (JStr ''P3''),
        monitor_name = jor (getprop event ''event_source'') (JStr ''SRE API''),
        original_title =
          jor (getprop event ''subject'') (jor (getprop event ''summary'') (JStr ''SRE Event''))
      \<rparr>)"

text \<open>
  The body of the \<^verbatim>\<open>try\<close> block; \<open>None\<close> is a thrown error. \<^verbatim>\<open>data.result || []\<close> must
  be an array for \<^verbatim>\<open>.map\<close> to be callable: on any other truthy value the call throws.
\<close>

definition fetchEvents_try :: "(nat \<Rightarrow> string) \<Rightarrow> fetch_outcome \<Rightarrow> EventData list option" where
  "fetchEvents_try clock outcome =
     (case outcome of
        FetchRejects \<Rightarrow> None
      | FetchResponse ok status body \<Rightarrow>
          if \<not> ok then Some []
          else (case body of
                  None \<Rightarrow> None
                | Some data \<Rightarrow>
                    if nullish data then None
                    else (case jor (getprop data ''result'') (JArr []) of
                            JArr events \<Rightarrow>
                              those (map (\<lambda>(index, event). mapEvent clock index event)
                                         (enumerate 0 events))
                          | _ \<Rightarrow> None)))"

text \<open>The whole method: the \<^verbatim>\<open>catch\<close> block turns every thrown error into \<^verbatim>\<open>[]\<close>.\<close>

definition fetchEvents :: "(nat \<Rightarrow> string) \<Rightarrow> fetch_outcome \<Rightarrow> EventData list" where
  "fetchEvents clock outcome =
     (case fetchEvents_try clock outcome of None \<Rightarrow> [] | Some events \<Rightarrow> events)"

section \<open>The event proxy handler\<close>

text \<open>
  A query parameter of \<^verbatim>\<open>req.query\<close>: absent, given once, or given several times (an
  array of strings).
\<close>

datatype qparam = QAbsent | QSingle string | QMulti "string list"

record request =
  req_method :: string
  q_priority :: qparam
  q_source :: qparam
  q_status :: qparam
  q_limit :: qparam

text \<open>\<^verbatim>\<open>p && typeof p === 'string'\<close>: the parameter is used when it is one non-empty string.\<close>

definition usable :: "qparam \<Rightarrow> string option" where
  "usable q = (case q of QSingle s \<Rightarrow> (if s \<noteq> [] then Some s else None) | _ \<Rightarrow> None)"

text \<open>
  What \<^verbatim>\<open>new Date(v).getTime()\<close> does on a stored \<^verbatim>\<open>create_ts\<close>: it gives the epoch
  milliseconds, or \<^verbatim>\<open>NaN\<close> for a value that is no date, or the conversion of an object to
  a primitive throws a TypeError.
\<close>

datatype date_result = DateThrows | DateNaN | DateMs int

text \<open>
  The built-ins of the JavaScript runtime the handler calls. They are not code of the
  repository, so the handler is modelled for any such functions. \<open>arraySort cmp\<close> is
  the engine's \<^verbatim>\<open>Array.prototype.sort\<close> run with a comparator whose answers are \<open>cmp\<close>
  (a \<^verbatim>\<open>NaN\<close> answer read as \<open>0\<close>, as the language prescribes). \<open>spreadLimit\<close> is the
  largest number of elements the engine can spread into the arguments of one call;
  beyond it the call throws a RangeError.
\<close>

record js_builtins =
  toUpperCase :: "string \<Rightarrow> string"
  toLowerCase :: "string \<Rightarrow> string"
  trim :: "string \<Rightarrow> string"
  dateGetTime :: "jsval \<Rightarrow> date_result"
  arraySort :: "(EventData \<Rightarrow> EventData \<Rightarrow> int) \<Rightarrow> EventData list \<Rightarrow> EventData list"
  spreadLimit :: int

text \<open>\<^verbatim>\<open>s.split(',')\<close>.\<close>

fun split_on :: "char \<Rightarrow> string \<Rightarrow> string list" where
  "split_on c [] = [[]]"
| "split_on c (x # xs) =
     (if x = c then [] # split_on c xs
      else (case split_on c xs of y # ys \<Rightarrow> (x # y) # ys | [] \<Rightarrow> [[x]]))"

text \<open>
  \<^verbatim>\<open>v?.f()\<close> for a string method \<open>f\<close>: \<^verbatim>\<open>undefined\<close> on a nullish value, the method's
  result on a string, and a TypeError (\<open>None\<close>) on any other value, which has no such
  method to call.
\<close>

definition optcall :: "(string \<Rightarrow> string) \<Rightarrow> jsval \<Rightarrow> jsval option" where
  "optcall f v =
     (if nullish v then Some JUndefined
      else (case v of JStr s \<Rightarrow> Some (JStr (f s)) | _ \<Rightarrow> None))"

text \<open>\<^verbatim>\<open>wanted.includes(v?.f() || dflt)\<close>.\<close>

definition includes_field :: "(string \<Rightarrow> string) \<Rightarrow> string \<Rightarrow> string list \<Rightarrow> jsval \<Rightarrow> bool option" where
  "includes_field f dflt wanted v =
     (case optcall f v of
        None \<Rightarrow> None
      | Some r \<Rightarrow> Some (jor r (JStr dflt) \<in> set (map JStr wanted)))"

text \<open>\<^verbatim>\<open>Array.prototype.filter\<close> with a callback that may throw.\<close>

fun filter_throwing :: "('a \<Rightarrow> bool option) \<Rightarrow> 'a list \<Rightarrow> 'a list option" where
  "filter_throwing p [] = Some []"
| "filter_throwing p (x # xs) =
     (case p x of
        None \<Rightarrow> None
      | Some b \<Rightarrow>
          (case filter_throwing p xs of
             None \<Rightarrow> None
           | Some ys \<Rightarrow> Some (if b then x # ys else ys)))"

definition priority_pred :: "js_builtins \<Rightarrow> string \<Rightarrow> EventData \<Rightarrow> bool option" where
  "priority_pred env s event =
     includes_field (toUpperCase env) ''P3''
       (map (\<lambda>p. toUpperCase env (trim env p)) (split_on (CHR '','') s)) (priority event)"

definition source_pred :: "js_builtins \<Rightarrow> string \<Rightarrow> EventData \<Rightarrow> bool option" where
  "source_pred env s event =
     includes_field (toLowerCase env) []
       (map (\<lambda>p. toLowerCase env (trim env p)) (split_on (CHR '','') s)) (event_source event)"

definition status_pred :: "js_builtins \<Rightarrow> string \<Rightarrow> EventData \<Rightarrow> bool option" where
  "status_pred env s event =
     includes_field (toLowerCase env) []
       (map (\<lambda>p. toLowerCase env (trim env p)) (split_on (CHR '','') s)) (current_status event)"

definition apply_filter ::
  "qparam \<Rightarrow> (string \<Rightarrow> EventData \<Rightarrow> bool option) \<Rightarrow> EventData list \<Rightarrow> EventData list option" where
  "apply_filter q p events =
     (case usable q of None \<Rightarrow> Some events | Some s \<Rightarrow> filter_throwing (p s) events)"

text \<open>The three filters in the handler's order; \<open>None\<close> when a callback throws.\<close>

definition apply_filters :: "js_builtins \<Rightarrow> request \<Rightarrow> EventData list \<Rightarrow> EventData list option" where
  "apply_filters env req allEvents =
     Option.bind (apply_filter (q_priority req) (priority_pred env) allEvents) (\<lambda>byPriority.
     Option.bind (apply_filter (q_source req) (source_pred env) byPriority) (\<lambda>bySource.
     apply_filter (q_status req) (status_pred env) bySource))"

definition timeOf :: "js_builtins \<Rightarrow> EventData \<Rightarrow> date_result" where
  "timeOf env e = dateGetTime env (create_ts e)"

text \<open>
  The comparator \<^verbatim>\<open>(a, b) => timeB - timeA\<close> as \<^verbatim>\<open>Array.prototype.sort\<close> reads it: a
  \<^verbatim>\<open>NaN\<close> result counts as \<open>0\<close>. Both times are integers of magnitude at most
  \<open>8.64e15\<close>, so the double subtraction has the sign of the exact difference.
\<close>

definition compareFn :: "js_builtins \<Rightarrow> EventData \<Rightarrow> EventData \<Rightarrow> int" where
  "compareFn env a b =
     (case (timeOf env a, timeOf env b) of
        (DateMs timeA, DateMs timeB) \<Rightarrow> timeB - timeA
      | _ \<Rightarrow> 0)"

text \<open>
  \<^verbatim>\<open>filteredEvents.sort(...)\<close>. Sorting two or more elements calls the comparator on
  each of them at least once, so the TypeError of a date conversion escapes exactly
  when such an element is present; otherwise the result is the engine's.
\<close>

definition array_sort :: "js_builtins \<Rightarrow> EventData list \<Rightarrow> EventData list option" where
  "array_sort env events =
     (if 2 \<le> length events \<and> list_ex (\<lambda>e. timeOf env e = DateThrows) events then None
      else Some (arraySort env (compareFn env) events))"

text \<open>
  \<^verbatim>\<open>parseInt(s, 10)\<close> on a string of code units below 256: leading white space is
  skipped, one sign is read, and the longest run of decimal digits is the value;
  \<open>None\<close> is \<^verbatim>\<open>NaN\<close>. The exact integer stands for the double: the handler only asks
  whether it is positive and passes it to \<^verbatim>\<open>slice\<close>, which stops at the array's length.
\<close>

definition isStrWhiteSpace :: "char \<Rightarrow> bool" where
  "isStrWhiteSpace c = (of_char c \<in> {9, 10, 11, 12, 13, 32, 160 :: nat})"

definition isDigit :: "char \<Rightarrow> bool" where
  "isDigit c = (48 \<le> (of_char c :: nat) \<and> (of_char c :: nat) \<le> 57)"

definition digitsValue :: "string \<Rightarrow> nat" where
  "digitsValue z = foldl (\<lambda>acc c. 10 * acc + (of_char c - 48)) 0 z"

definition parseInt10 :: "string \<Rightarrow> int option" where
  "parseInt10 s =
     (let s1 = dropWhile isStrWhiteSpace s;
          neg = (s1 \<noteq> [] \<and> hd s1 = CHR ''-'');
          s2 = (if s1 \<noteq> [] \<and> (hd s1 = CHR ''+'' \<or> hd s1 = CHR ''-'') then tl s1 else s1);
          z = takeWhile isDigit s2
      in if z = [] then None
         else Some ((if neg then - 1 else 1) * int (digitsValue z)))"

text \<open>The limit the handler applies, if any: \<^verbatim>\<open>!isNaN(limitNum) && limitNum > 0\<close>.\<close>

definition limit_of :: "qparam \<Rightarrow> nat option" where
  "limit_of q =
     (case usable q of
        None \<Rightarrow> None
      | Some s \<Rightarrow>
          (case parseInt10 s of
             None \<Rightarrow> None
           | Some limitNum \<Rightarrow> if 0 < limitNum then Some (nat limitNum) else None))"

definition apply_limit :: "qparam \<Rightarrow> EventData list \<Rightarrow> EventData list" where
  "apply_limit q events =
     (case limit_of q of None \<Rightarrow> events | Some n \<Rightarrow> take n events)"

text \<open>
  The responses: 405, 500, or 200 with \<^verbatim>\<open>result\<close> and the two counts of \<^verbatim>\<open>metadata\<close>
  that depend on the events.
\<close>

datatype response =
    Status405
  | Status500
  | Status200 "EventData list" nat nat

text \<open>
  The loop over the event sources. The only source is the SRE API, always enabled, and
  its \<^verbatim>\<open>fetchEvents\<close> does not throw. \<^verbatim>\<open>allEvents.push(...events)\<close> does throw when
  \<open>events\<close> has more elements than one call can take; the inner \<^verbatim>\<open>catch\<close> then records
  the error for the source and \<^verbatim>\<open>allEvents\<close> stays empty.
\<close>

definition collect_events :: "js_builtins \<Rightarrow> (nat \<Rightarrow> string) \<Rightarrow> fetch_outcome \<Rightarrow> EventData list" where
  "collect_events env clock upstream =
     (let events = fetchEvents clock upstream
      in if int (length events) \<le> spreadLimit env then events else [])"

text \<open>The body of the handler's outer \<^verbatim>\<open>try\<close> block; \<open>None\<close> is a thrown error.\<close>

definition handler_try ::
  "js_builtins \<Rightarrow> (nat \<Rightarrow> string) \<Rightarrow> request \<Rightarrow> fetch_outcome \<Rightarrow> response option" where
  "handler_try env clock req upstream =
     (let allEvents = collect_events env clock upstream in
      Option.bind (apply_filters env req allEvents) (\<lambda>filtered.
      Option.bind (array_sort env filtered) (\<lambda>sorted.
        let filteredEvents = apply_limit (q_limit req) sorted
        in Some (Status200 filteredEvents (length allEvents) (length filteredEvents)))))"

definition handler ::
  "js_builtins \<Rightarrow> (nat \<Rightarrow> string) \<Rightarrow> request \<Rightarrow> fetch_outcome \<Rightarrow> response" where
  "handler env clock req upstream =
     (if req_method req \<noteq> ''GET'' then Status405
      else (case handler_try env clock req upstream of
              None \<Rightarrow> Status500
            | Some r \<Rightarrow> r))"

section \<open>The Rate Limiter of the LLM gateway\<close>

text \<open>
  Modelled from the spec: the Rate Limiter of the LLM gateway (spec sections 3 and 4.1).
  Its code belongs to the Python backend, which is not among the sources; the README
  only names it (token bucket, 0.5 requests per second, burst capacity 2). The state
  and \<open>admit\<close> follow the spec's words: refill
  \<^verbatim>\<open>tokens += elapsed*refillRate\<close> capped at \<^verbatim>\<open>capacity\<close>, then test \<^verbatim>\<open>tokens >= cost\<close>, and
  on success decrement. Time is in seconds; token counts are exact reals, the rounding
  of floating point is left out.
\<close>

record RateLimiterState =
  tokens :: real
  capacity :: real
  refillRatePerSecond :: real
  lastRefill :: real

definition refill :: "real \<Rightarrow> RateLimiterState \<Rightarrow> RateLimiterState" where
  "refill now s =
     s\<lparr> tokens := min (capacity s) (tokens s + (now - lastRefill s) * refillRatePerSecond s),
        lastRefill := now \<rparr>"

definition admit :: "real \<Rightarrow> real \<Rightarrow> RateLimiterState \<Rightarrow> bool \<times> RateLimiterState" where
  "admit now cost s =
     (let r = refill now s
      in if cost \<le> tokens r then (True, r\<lparr> tokens := tokens r - cost \<rparr>) else (False, r))"

text \<open>A series of calls \<open>(now, cost)\<close> on one limiter, each on the state the last one left.\<close>

fun admits :: "(real \<times> real) list \<Rightarrow> RateLimiterState \<Rightarrow> bool list \<times> RateLimiterState" where
  "admits [] s = ([], s)"
| "admits ((now, cost) # calls) s =
     (let (ok, s1) = admit now cost s; (oks, s2) = admits calls s1 in (ok # oks, s2))"

text \<open>Calls in the order of a monotonic clock that starts at \<open>t\<close>, none with a negative cost.\<close>

fun in_order :: "real \<Rightarrow> (real \<times> real) list \<Rightarrow> bool" where
  "in_order t [] = True"
| "in_order t ((now, cost) # calls) = (t \<le> now \<and> 0 \<le> cost \<and> in_order now calls)"

definition full_bucket :: "real \<Rightarrow> real \<Rightarrow> real \<Rightarrow> RateLimiterState" where
  "full_bucket cap rate t0 =
     \<lparr> tokens = cap, capacity = cap, refillRatePerSecond = rate, lastRefill = t0 \<rparr>"

section \<open>Concrete inputs for evaluation\<close>

text \<open>
  A clock that always reads the same instant, and the built-ins on ASCII strings: case
  conversion of the letters a to z, trimming of white space, and \<^verbatim>\<open>Date\<close> tabulated on
  the two ISO timestamps the inputs below carry (every other value they carry is no
  date).
\<close>

definition fixedClock :: "nat \<Rightarrow> string" where
  "fixedClock i = ''2025-01-01T00:00:00.000Z''"

definition ascii_upper :: "char \<Rightarrow> char" where
  "ascii_upper c =
     (if 97 \<le> (of_char c :: nat) \<and> (of_char c :: nat) \<le> 122 then char_of (of_char c - 32 :: nat) else c)"

definition ascii_lower :: "char \<Rightarrow> char" where
  "ascii_lower c =
     (if 65 \<le> (of_char c :: nat) \<and> (of_char c :: nat) \<le> 90 then char_of (of_char c + 32 :: nat) else c)"

definition ascii_trim :: "string \<Rightarrow> string" where
  "ascii_trim s = rev (dropWhile isStrWhiteSpace (rev (dropWhile isStrWhiteSpace s)))"

definition sample_dateGetTime :: "jsval \<Rightarrow> date_result" where
  "sample_dateGetTime v =
     (if v = JStr ''2024-01-01T00:00:00.000Z'' then DateMs 1704067200000
      else if v = JStr ''2024-01-03T00:00:00.000Z'' then DateMs 1704240000000
      else DateNaN)"

text \<open>
  The sort of V8, the engine of the Node runtime that serves the handler, on an array
  of fewer than 64 elements (\<^verbatim>\<open>ArrayTimSortImpl\<close> in V8's \<^verbatim>\<open>array-sort.tq\<close>, where the
  minimal run length is then the whole length, so there is one run and no merge).
  \<^verbatim>\<open>CountAndMakeRun\<close> compares the second element with the first to see whether the
  leading run descends, extends the run while each next element keeps that direction
  (strictly for a descending run), and reverses a descending run. \<^verbatim>\<open>BinaryInsertionSort\<close>
  then inserts every later element into the sorted front by binary search: it goes left
  of the middle element when the comparator gives less than \<open>0\<close>, right of it otherwise.
\<close>

fun run_extent :: "('a \<Rightarrow> 'a \<Rightarrow> int) \<Rightarrow> bool \<Rightarrow> 'a \<Rightarrow> 'a list \<Rightarrow> nat" where
  "run_extent cmp isDescending previousElement [] = 0"
| "run_extent cmp isDescending previousElement (currentElement # rest) =
     (if (if isDescending then 0 \<le> cmp currentElement previousElement
          else cmp currentElement previousElement < 0)
      then 0
      else Suc (run_extent cmp isDescending currentElement rest))"

definition countAndMakeRun :: "('a \<Rightarrow> 'a \<Rightarrow> int) \<Rightarrow> 'a list \<Rightarrow> nat \<times> 'a list" where
  "countAndMakeRun cmp xs =
     (case xs of
        elementHigh # elementLow # rest \<Rightarrow>
          (let isDescending = (cmp elementLow elementHigh < 0);
               runLength = 2 + run_extent cmp isDescending elementLow rest
           in (runLength,
               if isDescending then rev (take runLength xs) @ drop runLength xs else xs))
      | _ \<Rightarrow> (length xs, xs))"

function binary_search :: "('a \<Rightarrow> 'a \<Rightarrow> int) \<Rightarrow> 'a \<Rightarrow> 'a list \<Rightarrow> nat \<Rightarrow> nat \<Rightarrow> nat" where
  "binary_search cmp pivot a left right =
     (if left < right
      then (if cmp pivot (a ! (left + (right - left) div 2)) < 0
            then binary_search cmp pivot a left (left + (right - left) div 2)
            else binary_search cmp pivot a (left + (right - left) div 2 + 1) right)
      else left)"
  by pat_completeness auto
termination
  by (relation "measure (\<lambda>(cmp, pivot, a, left, right). right - left)") auto

declare binary_search.simps [simp del]

fun binaryInsertionSort :: "('a \<Rightarrow> 'a \<Rightarrow> int) \<Rightarrow> 'a list \<Rightarrow> 'a list \<Rightarrow> 'a list" where
  "binaryInsertionSort cmp front [] = front"
| "binaryInsertionSort cmp front (pivot # rest) =
     (let left = binary_search cmp pivot front 0 (length front)
      in binaryInsertionSort cmp (take left front @ pivot # drop left front) rest)"

text \<open>
  Arrays of 64 or more elements are cut into several runs that V8 merges; that part is
  not described here, and the value is left unspecified.
\<close>

definition v8_sort :: "('a \<Rightarrow> 'a \<Rightarrow> int) \<Rightarrow> 'a list \<Rightarrow> 'a list" where
  "v8_sort cmp xs =
     (if length xs < 2 then xs
      else if length xs < 64
      then (case countAndMakeRun cmp xs of
              (runLength, ys) \<Rightarrow> binaryInsertionSort cmp (take runLength ys) (drop runLength ys))
      else undefined)"

text \<open>
  The built-ins used for evaluation; \<open>100000\<close> stands for V8's limit on spread
  arguments, which is of that order and depends on the stack, far above the inputs
  below.
\<close>

definition sample_builtins :: js_builtins where
  "sample_builtins =
     \<lparr> toUpperCase = map ascii_upper, toLowerCase = map ascii_lower,
       trim = ascii_trim, dateGetTime = sample_dateGetTime,
       arraySort = v8_sort, spreadLimit = 100000 \<rparr>"

definition limit_request :: "qparam \<Rightarrow> request" where
  "limit_request q =
     \<lparr> req_method = ''GET'', q_priority = QAbsent, q_source = QAbsent, q_status = QAbsent,
       q_limit = q \<rparr>"

definition upstream_event :: "string \<Rightarrow> string \<Rightarrow> jsval" where
  "upstream_event ident ts = JObj [(''event_id'', JStr ident), (''create_ts'', JStr ts)]"

definition upstream_dated :: fetch_outcome where
  "upstream_dated =
     FetchResponse True 200 (Some (JObj [(''result'', JArr
       [upstream_event ''E1'' ''2024-01-01T00:00:00.000Z'',
        upstream_event ''E2'' ''2024-01-03T00:00:00.000Z''])]))"

definition upstream_undated :: fetch_outcome where
  "upstream_undated =
     FetchResponse True 200 (Some (JObj [(''result'', JArr
       [upstream_event ''E1'' ''2024-01-01T00:00:00.000Z'',
        upstream_event ''E2'' ''not-a-date'',
        upstream_event ''E3'' ''2024-01-03T00:00:00.000Z''])]))"

definition upstream_mixed :: fetch_outcome where
  "upstream_mixed =
     FetchResponse True 200 (Some (JObj [(''result'', JArr
       [upstream_event ''E1'' ''2024-01-01T00:00:00.000Z'',
        upstream_event ''E2'' ''2024-01-03T00:00:00.000Z'',
        upstream_event ''E3'' ''not-a-date'',
        upstream_event ''E4'' ''2024-01-03T00:00:00.000Z''])]))"

definition upstream_status_only :: fetch_outcome where
  "upstream_status_only =
     FetchResponse True 200 (Some (JObj [(''result'', JArr
       [JObj [(''status'', JStr ''Resolved'')], JObj [(''event_id'', JStr ''E7'')]])]))"

definition response_ids :: "response \<Rightarrow> jsval list option" where
  "response_ids r =
     (case r of Status200 result totalEvents n \<Rightarrow> Some (map event_id result) | _ \<Rightarrow> None)"

definition id_times :: "js_builtins \<Rightarrow> EventData list \<Rightarrow> (jsval \<times> date_result) list" where
  "id_times env events = map (\<lambda>e. (event_id e, timeOf env e)) events"

section \<open>Properties of fetchEvents\<close>

lemma those_map_Some:
  "those (map f xs) = Some ys \<Longrightarrow> length ys = length xs \<and> (\<forall>i<length xs. f (xs ! i) = Some (ys ! i))"
proof (induction xs arbitrary: ys)
  case Nil then show ?case by simp
next
  case (Cons x xs)
  then show ?case
    by (auto split: option.splits simp: nth_Cons split: nat.splits)
qed

lemma those_mapEvent:
  assumes "those (map (\<lambda>(index, event). mapEvent clock index event) (enumerate 0 events)) = Some es"
  shows "length es = length events \<and> (\<forall>i<length events. mapEvent clock i (events ! i) = Some (es ! i))"
  using those_map_Some [OF assms] by (simp add: nth_enumerate_eq)

lemma fetchEvents_try_Some:
  assumes "fetchEvents_try clock outcome = Some es" "es \<noteq> []"
  shows "\<exists>status data events. outcome = FetchResponse True status (Some data) \<and> \<not> nullish data
        \<and> jor (getprop data ''result'') (JArr []) = JArr events \<and> length es = length events
        \<and> (\<forall>i<length events. mapEvent clock i (events ! i) = Some (es ! i))"
proof (cases outcome)
  case FetchRejects
  with assms show ?thesis by (simp add: fetchEvents_try_def)
next
  case (FetchResponse ok status body)
  with assms have ok: ok by (auto simp: fetchEvents_try_def split: if_splits)
  with assms FetchResponse obtain data where body: "body = Some data"
    by (cases body) (auto simp: fetchEvents_try_def)
  with assms FetchResponse ok have nn: "\<not> nullish data"
    by (auto simp: fetchEvents_try_def split: if_splits)
  with assms FetchResponse ok body obtain events where
    ev: "jor (getprop data ''result'') (JArr []) = JArr events"
    and th: "those (map (\<lambda>(index, event). mapEvent clock index event) (enumerate 0 events)) = Some es"
    by (cases "jor (getprop data ''result'') (JArr [])") (auto simp: fetchEvents_try_def)
  from those_mapEvent [OF th] FetchResponse ok body nn ev show ?thesis by blast
qed

lemma mapEvent_priority:
  "mapEvent clock i u = Some e \<Longrightarrow> priority e = jor (getprop u ''priority'') (JStr ''P3'')"
  by (cases "nullish u") (auto simp: mapEvent_def)

lemma mapEvent_current_status:
  "mapEvent clock i u = Some e \<Longrightarrow>
   current_status e = jor (getprop u ''current_status'') (jor (getprop u ''status'') (JStr ''Open''))"
  by (cases "nullish u") (auto simp: mapEvent_def)

lemma mapEvent_fields:
  "mapEvent clock i u = Some e \<Longrightarrow>
     priority e = (if truthy (getprop u ''priority'') then getprop u ''priority'' else JStr ''P3'')
   \<and> current_status e =
       (if truthy (getprop u ''current_status'') then getprop u ''current_status''
        else if truthy (getprop u ''status'') then getprop u ''status'' else JStr ''Open'')"
  by (simp add: mapEvent_priority mapEvent_current_status jor_def)

lemma status_only_events:
  "map (\<lambda>e. (priority e, current_status e)) (fetchEvents fixedClock upstream_status_only) =
     [(JStr ''P3'', JStr ''Resolved''), (JStr ''P3'', JStr ''Open'')]"
  by code_simp

text \<open>
  Claim C10, as the code has it. \<^verbatim>\<open>fetchEvents\<close> returns the empty list when the fetch
  rejects, when the response is not OK, when the body does not parse, and on every
  other error thrown inside its \<^verbatim>\<open>try\<close> block. When it returns events, the payload's
  \<^verbatim>\<open>result\<close> is an array of the same length, and the event at each index has the
  upstream \<^verbatim>\<open>priority\<close> if that is truthy and \<^verbatim>\<open>'P3'\<close> otherwise, and as
  \<^verbatim>\<open>current_status\<close> the upstream \<^verbatim>\<open>current_status\<close> if truthy, else the upstream
  \<^verbatim>\<open>status\<close> if truthy, else \<^verbatim>\<open>'Open'\<close>.
\<close>

theorem fetchEvents_total_defaults:
  "fetchEvents clock FetchRejects = []
   \<and> fetchEvents clock (FetchResponse False status body) = []
   \<and> fetchEvents clock (FetchResponse True status None) = []
   \<and> (fetchEvents_try clock outcome = None \<longrightarrow> fetchEvents clock outcome = [])
   \<and> (fetchEvents clock outcome \<noteq> [] \<longrightarrow>
        (\<exists>st data events.
            outcome = FetchResponse True st (Some data)
          \<and> getprop data ''result'' = JArr events
          \<and> length (fetchEvents clock outcome) = length events
          \<and> (\<forall>i<length events.
                priority (fetchEvents clock outcome ! i) =
                  (if truthy (getprop (events ! i) ''priority'')
                   then getprop (events ! i) ''priority'' else JStr ''P3'')
              \<and> current_status (fetchEvents clock outcome ! i) =
                  (if truthy (getprop (events ! i) ''current_status'')
                   then getprop (events ! i) ''current_status''
                   else if truthy (getprop (events ! i) ''status'')
                   then getprop (events ! i) ''status'' else JStr ''Open''))))"
proof (intro conjI impI)
  show "fetchEvents clock FetchRejects = []"
    by (simp add: fetchEvents_def fetchEvents_try_def)
  show "fetchEvents clock (FetchResponse False status body) = []"
    by (simp add: fetchEvents_def fetchEvents_try_def)
  show "fetchEvents clock (FetchResponse True status None) = []"
    by (simp add: fetchEvents_def fetchEvents_try_def)
  show "fetchEvents clock outcome = []" if "fetchEvents_try clock outcome = None"
    using that by (simp add: fetchEvents_def)
next
  assume ne: "fetchEvents clock outcome \<noteq> []"
  then obtain es where es: "fetchEvents_try clock outcome = Some es" "es \<noteq> []"
    and eq: "fetchEvents clock outcome = es"
    by (cases "fetchEvents_try clock outcome") (auto simp: fetchEvents_def)
  from fetchEvents_try_Some [OF es] obtain st data events where
    o: "outcome = FetchResponse True st (Some data)"
    and r: "jor (getprop data ''result'') (JArr []) = JArr events"
    and l: "length es = length events"
    and m: "\<forall>i<length events. mapEvent clock i (events ! i) = Some (es ! i)"
    by blast
  from l es(2) have "events \<noteq> []" by auto
  with r have r': "getprop data ''result'' = JArr events"
    by (auto simp: jor_def split: if_splits)
  show "\<exists>st data events.
            outcome = FetchResponse True st (Some data)
          \<and> getprop data ''result'' = JArr events
          \<and> length (fetchEvents clock outcome) = length events
          \<and> (\<forall>i<length events.
                priority (fetchEvents clock outcome ! i) =
                  (if truthy (getprop (events ! i) ''priority'')
                   then getprop (events ! i) ''priority'' else JStr ''P3'')
              \<and> current_status (fetchEvents clock outcome ! i) =
                  (if truthy (getprop (events ! i) ''current_status'')
                   then getprop (events ! i) ''current_status''
                   else if truthy (getprop (events ! i) ''status'')
                   then getprop (events ! i) ''status'' else JStr ''Open''))"
  proof (intro exI conjI allI impI)
    show "outcome = FetchResponse True st (Some data)" by (rule o)
    show "getprop data ''result'' = JArr events" by (rule r')
    show "length (fetchEvents clock outcome) = length events" using eq l by simp
  next
    fix i assume i: "i < length events"
    with m have me: "mapEvent clock i (events ! i) = Some (es ! i)" by simp
    from mapEvent_fields [OF me] show "priority (fetchEvents clock outcome ! i) =
                  (if truthy (getprop (events ! i) ''priority'')
                   then getprop (events ! i) ''priority'' else JStr ''P3'')"
      unfolding eq by (rule conjunct1)
    from mapEvent_fields [OF me] show "current_status (fetchEvents clock outcome ! i) =
                  (if truthy (getprop (events ! i) ''current_status'')
                   then getprop (events ! i) ''current_status''
                   else if truthy (getprop (events ! i) ''status'')
                   then getprop (events ! i) ''status'' else JStr ''Open'')"
      unfolding eq by (rule conjunct2)
  qed
qed

theorem fetchEvents_total_defaults_witness:
  "fetchEvents_try fixedClock FetchRejects = None
   \<and> fetchEvents fixedClock FetchRejects = []
   \<and> fetchEvents fixedClock upstream_status_only \<noteq> []
   \<and> map (\<lambda>e. (priority e, current_status e)) (fetchEvents fixedClock upstream_status_only) =
       [(JStr ''P3'', JStr ''Resolved''), (JStr ''P3'', JStr ''Open'')]"
proof -
  have t: "fetchEvents_try fixedClock FetchRejects = None"
    by (simp add: fetchEvents_try_def)
  from fetchEvents_total_defaults [where clock = fixedClock and outcome = FetchRejects] t
  have r: "fetchEvents fixedClock FetchRejects = []" by blast
  have n: "fetchEvents fixedClock upstream_status_only \<noteq> []"
    using status_only_events by auto
  from fetchEvents_total_defaults [where clock = fixedClock and outcome = upstream_status_only] n
  have "length (fetchEvents fixedClock upstream_status_only) > 0" by blast
  with t r n status_only_events show ?thesis by blast
qed

text \<open>
  The claim as stated fails where an upstream event has no \<^verbatim>\<open>current_status\<close> but a
  \<^verbatim>\<open>status\<close>: the returned event carries that status, not \<^verbatim>\<open>'Open'\<close>.
\<close>

theorem fetchEvents_status_alias_counterexample:
  "getprop (JObj [(''status'', JStr ''Resolved'')]) ''current_status'' = JUndefined
   \<and> map current_status
         (fetchEvents fixedClock
            (FetchResponse True 200
               (Some (JObj [(''result'', JArr [JObj [(''status'', JStr ''Resolved'')]])]))))
       = [JStr ''Resolved'']"
  by code_simp

section \<open>The handler's sort and limit\<close>

text \<open>
  With dates that parse, the handler puts the newer event first and \<^verbatim>\<open>limit=1\<close> returns
  it.
\<close>

lemma handler_dated_newest_first:
  "response_ids (handler sample_builtins fixedClock (limit_request (QSingle ''1'')) upstream_dated)
     = Some [JStr ''E2'']"
  by code_simp

text \<open>
  A descending run is reversed before the later elements are inserted: of E1
  (2024-01-01), E2 (2024-01-03), E3 (no date) and E4 (2024-01-03), \<^verbatim>\<open>limit=2\<close> returns E2
  and E4.
\<close>

lemma handler_mixed_dates:
  "response_ids (handler sample_builtins fixedClock (limit_request (QSingle ''2'')) upstream_mixed)
     = Some [JStr ''E2'', JStr ''E4'']"
  by code_simp

text \<open>
  When the source returns more events than one call can take, \<^verbatim>\<open>push\<close> throws, the
  error is caught, and the handler answers 200 with no events and \<^verbatim>\<open>total_events\<close> 0.
\<close>

lemma handler_over_spread_limit:
  "handler (sample_builtins\<lparr> spreadLimit := 1 \<rparr>) fixedClock (limit_request QAbsent) upstream_dated
     = Status200 [] 0 0"
  by code_simp

text \<open>
  Claim C9 says that every GET request gets the filtered events newest first, so that
  \<^verbatim>\<open>limit=n\<close> returns the \<open>n\<close> most recent ones; the handler's own comment says
  \<^verbatim>\<open>Sort events by timestamp (newest first)\<close>. The code breaks this when an event's
  \<^verbatim>\<open>create_ts\<close> is a string that is no date. Upstream sends E1 (2024-01-01), E2
  (\<^verbatim>\<open>not-a-date\<close>) and E3 (2024-01-03); no filter is set and \<^verbatim>\<open>limit=1\<close>. Every
  comparison with E2 gives \<^verbatim>\<open>NaN\<close>, the sort leaves the array in upstream order, and
  the handler returns E1, the oldest event, although E3 is two days newer.
\<close>

theorem handler_undated_returns_older_event:
  "response_ids (handler sample_builtins fixedClock (limit_request (QSingle ''1'')) upstream_undated)
     = Some [JStr ''E1'']
   \<and> id_times sample_builtins (fetchEvents fixedClock upstream_undated) =
       [(JStr ''E1'', DateMs 1704067200000), (JStr ''E2'', DateNaN),
        (JStr ''E3'', DateMs 1704240000000)]"
  by code_simp

section \<open>Properties of the Rate Limiter\<close>

lemma refill_fields [simp]:
  "capacity (refill now s) = capacity s"
  "refillRatePerSecond (refill now s) = refillRatePerSecond s"
  "lastRefill (refill now s) = now"
  by (simp_all add: refill_def)

lemma refill_bounds:
  assumes "0 \<le> tokens s" "tokens s \<le> capacity s" "0 \<le> refillRatePerSecond s" "lastRefill s \<le> now"
  shows "0 \<le> tokens (refill now s) \<and> tokens (refill now s) \<le> capacity s"
proof -
  have "0 \<le> (now - lastRefill s) * refillRatePerSecond s" using assms by simp
  with assms show ?thesis by (simp add: refill_def)
qed

lemma admit_fields [simp]:
  "capacity (snd (admit now cost s)) = capacity s"
  "refillRatePerSecond (snd (admit now cost s)) = refillRatePerSecond s"
  "lastRefill (snd (admit now cost s)) = now"
  by (simp_all add: admit_def Let_def)

lemma admit_bounds:
  assumes "0 \<le> tokens s" "tokens s \<le> capacity s" "0 \<le> refillRatePerSecond s" "lastRefill s \<le> now" "0 \<le> cost"
  shows "0 \<le> tokens (snd (admit now cost s)) \<and> tokens (snd (admit now cost s)) \<le> capacity s"
  using refill_bounds [OF assms(1-4)] assms(5) by (auto simp: admit_def Let_def)

lemma admits_bounds:
  "0 \<le> tokens s \<Longrightarrow> tokens s \<le> capacity s \<Longrightarrow> 0 \<le> refillRatePerSecond s \<Longrightarrow>
   in_order (lastRefill s) calls \<Longrightarrow>
   0 \<le> tokens (snd (admits calls s)) \<and> tokens (snd (admits calls s)) \<le> capacity s
   \<and> capacity (snd (admits calls s)) = capacity s
   \<and> length (fst (admits calls s)) = length calls"
proof (induction calls arbitrary: s)
  case Nil
  then show ?case by simp
next
  case (Cons c calls)
  obtain now cost where c: "c = (now, cost)" by (cases c)
  let ?s1 = "snd (admit now cost s)"
  from Cons.prems c have o: "lastRefill s \<le> now" "0 \<le> cost" "in_order now calls" by auto
  have b: "0 \<le> tokens ?s1 \<and> tokens ?s1 \<le> capacity s"
    using admit_bounds [OF Cons.prems(1-3) o(1,2)] .
  have "0 \<le> tokens (snd (admits calls ?s1)) \<and> tokens (snd (admits calls ?s1)) \<le> capacity ?s1
   \<and> capacity (snd (admits calls ?s1)) = capacity ?s1
   \<and> length (fst (admits calls ?s1)) = length calls"
    using b Cons.prems(3) o(3) by (intro Cons.IH) simp_all
  then show ?case by (simp add: c split_beta Let_def)
qed

lemma burst_scenario:
  assumes "t0 \<le> t1" "t1 \<le> t2" "t2 \<le> t3" "t3 - t1 < 2"
  shows "fst (admits [(t1, 1), (t2, 1), (t3, 1)] (full_bucket 2 (1/2) t0)) = [True, True, False]"
proof -
  define s1 where "s1 = snd (admit t1 1 (full_bucket 2 (1/2) t0))"
  define s2 where "s2 = snd (admit t2 1 s1)"
  have a1: "admit t1 1 (full_bucket 2 (1/2) t0) = (True, s1)"
    and t1: "tokens s1 = 1" and f1: "capacity s1 = 2" "refillRatePerSecond s1 = 1/2" "lastRefill s1 = t1"
    using assms(1) by (simp_all add: s1_def admit_def refill_def full_bucket_def Let_def min_def)
  have r2: "tokens (refill t2 s1) = min 2 (1 + (t2 - t1) / 2)"
    by (simp add: refill_def t1 f1)
  have a2: "admit t2 1 s1 = (True, s2)"
    using assms(2) r2 by (simp add: s2_def admit_def Let_def min_def)
  have t2: "tokens s2 = min 2 (1 + (t2 - t1) / 2) - 1"
    and f2: "capacity s2 = 2" "refillRatePerSecond s2 = 1/2" "lastRefill s2 = t2"
    using assms(2) r2 by (simp_all add: s2_def admit_def Let_def f1)
  have m: "tokens s2 \<le> (t2 - t1) / 2"
    unfolding t2 by (simp add: min_def split: if_splits)
  have "tokens (refill t3 s2) \<le> tokens s2 + (t3 - t2) * (1/2)"
    by (simp add: refill_def f2)
  with m assms(4) have r3: "tokens (refill t3 s2) < 1"
    by (simp add: field_simps)
  then have a3: "fst (admit t3 1 s2) = False"
    by (simp add: admit_def Let_def)
  show ?thesis
    using a1 a2 a3 by (simp add: split_beta)
qed


text \<open>
  Claim C2. Each \<open>admit now cost\<close> first refills the bucket by the elapsed time times
  the refill rate, capped at the capacity; it returns true exactly when the refilled
  count is at least the cost, and then the count is the refilled one less the cost;
  otherwise it returns false at once and leaves the refilled count as it is. With a
  monotonic clock and costs that are not negative the count stays between 0 and the
  capacity, after one call and after any series of calls. A full bucket of capacity 2
  refilled at 0.5 tokens per second admits the first two of three calls made within
  less than two seconds and rejects the third.
\<close>

theorem admit_token_bucket:
  assumes "0 \<le> tokens s" "tokens s \<le> capacity s" "0 \<le> refillRatePerSecond s"
      and "lastRefill s \<le> now" "0 \<le> cost"
      and "in_order (lastRefill s) calls"
      and "t0 \<le> t1" "t1 \<le> t2" "t2 \<le> t3" "t3 - t1 < 2"
  shows "tokens (refill now s) =
           min (capacity s) (tokens s + (now - lastRefill s) * refillRatePerSecond s)
       \<and> fst (admit now cost s) = (cost \<le> tokens (refill now s))
       \<and> tokens (snd (admit now cost s)) =
           (if cost \<le> tokens (refill now s) then tokens (refill now s) - cost
            else tokens (refill now s))
       \<and> 0 \<le> tokens (snd (admit now cost s))
       \<and> tokens (snd (admit now cost s)) \<le> capacity (snd (admit now cost s))
       \<and> 0 \<le> tokens (snd (admits calls s))
       \<and> tokens (snd (admits calls s)) \<le> capacity (snd (admits calls s))
       \<and> fst (admits [(t1, 1), (t2, 1), (t3, 1)] (full_bucket 2 (1/2) t0)) = [True, True, False]"
proof (intro conjI)
  show "tokens (refill now s) =
           min (capacity s) (tokens s + (now - lastRefill s) * refillRatePerSecond s)"
    by (simp add: refill_def)
  show "fst (admit now cost s) = (cost \<le> tokens (refill now s))"
    by (simp add: admit_def Let_def)
  show "tokens (snd (admit now cost s)) =
           (if cost \<le> tokens (refill now s) then tokens (refill now s) - cost
            else tokens (refill now s))"
    by (simp add: admit_def Let_def)
  show "0 \<le> tokens (snd (admit now cost s))"
    using admit_bounds [OF assms(1-5)] by simp
  show "tokens (snd (admit now cost s)) \<le> capacity (snd (admit now cost s))"
    using admit_bounds [OF assms(1-5)] by simp
  show "0 \<le> tokens (snd (admits calls s))"
    using admits_bounds [OF assms(1-3,6)] by simp
  show "tokens (snd (admits calls s)) \<le> capacity (snd (admits calls s))"
    using admits_bounds [OF assms(1-3,6)] by simp
  show "fst (admits [(t1, 1), (t2, 1), (t3, 1)] (full_bucket 2 (1/2) t0)) = [True, True, False]"
    using assms(7-10) by (rule burst_scenario)
qed

theorem admit_token_bucket_witness:
  "in_order 0 [(0, 1), (1/10, 1), (1/5, 1)]
   \<and> (1/5 :: real) - 0 < 2
   \<and> fst (admit 0 1 (full_bucket 2 (1/2) 0)) = True
   \<and> tokens (snd (admit 0 1 (full_bucket 2 (1/2) 0))) = 1
   \<and> 0 \<le> tokens (snd (admits [(0, 1), (1/10, 1), (1/5, 1)] (full_bucket 2 (1/2) 0)))
   \<and> tokens (snd (admits [(0, 1), (1/10, 1), (1/5, 1)] (full_bucket 2 (1/2) 0))) \<le> 2
   \<and> fst (admits [(0, 1), (1/10, 1), (1/5, 1)] (full_bucket 2 (1/2) 0)) = [True, True, False]"
proof -
  let ?s = "full_bucket 2 (1/2) 0"
  let ?calls = "[(0, 1), (1/10, 1), (1/5, 1)] :: (real \<times> real) list"
  have s: "tokens ?s = 2" "capacity ?s = 2" "refillRatePerSecond ?s = 1/2" "lastRefill ?s = 0"
    by (simp_all add: full_bucket_def)
  have o: "in_order 0 ?calls" by simp
  have c: "capacity (snd (admits ?calls ?s)) = 2"
    using admits_bounds [of ?s ?calls] s o by simp
  have r: "tokens (refill 0 ?s) = 2" by (simp add: refill_def s)
  from admit_token_bucket [of ?s 0 1 ?calls 0 0 "1/10" "1/5"] s o c r
  show ?thesis by simp
qed

end
